theory Spec2Isabelle
  imports Complex_Main "HOL-Library.Multiset"
begin

section \<open>The course-platform backend (server.js)\<close>

text \<open>
  The backend is one Express application: two gates (\<open>requireAuth\<close>, \<open>requireAdmin\<close>)
  and ten route handlers that pass requests through to a hosted relational store.
  The development below embeds the gates and the handlers as functions over an explicit
  store, a request and an environment. The collaborators that are not part of the
  program (the identity service, the store's failures, the clock, the PDF writer, and
  the conversions of the language that the program calls: \<open>toLowerCase\<close>, \<open>trim\<close> and
  the conversion of a string to a number) are fields of the environment or arguments of
  the handlers.

  A request is taken where the router dispatches it: its JSON body has been parsed and
  its route and parameters are known. Strings are byte strings in UTF-8.
\<close>

subsection \<open>String operations of the language\<close>

text \<open>
  \<open>s.split(",")\<close>: the pieces between the commas; the empty string gives one empty
  piece, and so does what follows a last comma.
\<close>

fun split_comma :: "string \<Rightarrow> string list" where
  "split_comma [] = [[]]"
| "split_comma (c # cs) =
     (if c = CHR '','' then [] # split_comma cs
      else (case split_comma cs of [] \<Rightarrow> [[c]] | p # ps \<Rightarrow> (c # p) # ps))"

definition startsWith :: "string \<Rightarrow> string \<Rightarrow> bool" where
  "startsWith s p = (take (length p) s = p)"

text \<open>
  \<open>s.slice(n)\<close> for \<open>n \<ge> 0\<close> and \<open>s.slice(-n)\<close>. The program applies the first to a
  header whose first seven characters are \<open>"Bearer "\<close>, and the second to a decimal
  numeral: there a character is one byte.
\<close>

definition slice_from :: "nat \<Rightarrow> string \<Rightarrow> string" where
  "slice_from n s = drop n s"

definition slice_last :: "nat \<Rightarrow> string \<Rightarrow> string" where
  "slice_last n s = drop (length s - n) s"

text \<open>\<open>n.toString()\<close> for a non-negative integer.\<close>

definition digit_char :: "nat \<Rightarrow> char" where
  "digit_char d = ''0123456789'' ! (d mod 10)"

fun decimal :: "nat \<Rightarrow> string" where
  "decimal n = (if n < 10 then [digit_char n] else decimal (n div 10) @ [digit_char (n mod 10)])"

declare decimal.simps [simp del]

subsection \<open>Values of the language: numbers and request fields\<close>

text \<open>
  A number is NaN, an infinity or a finite double, which is given by its value.
\<close>

datatype jsnum = NaN | PosInfinity | NegInfinity | Finite rat

text \<open>
  A field of a parsed JSON body: absent (\<open>undefined\<close>), \<open>null\<close>, a boolean, a number,
  a string, or an array or object, which carries the string its \<open>toString\<close> yields.
\<close>

datatype json = JUndefined | JNull | JBool bool | JNum jsnum | JStr string | JObject string

text \<open>Truthiness, as \<open>||\<close> and \<open>if\<close> test it.\<close>

fun truthy_num :: "jsnum \<Rightarrow> bool" where
  "truthy_num NaN = False"
| "truthy_num (Finite r) = (r \<noteq> 0)"
| "truthy_num PosInfinity = True"
| "truthy_num NegInfinity = True"

fun truthy :: "json \<Rightarrow> bool" where
  "truthy JUndefined = False"
| "truthy JNull = False"
| "truthy (JBool b) = b"
| "truthy (JNum n) = truthy_num n"
| "truthy (JStr s) = (s \<noteq> [])"
| "truthy (JObject s) = True"

text \<open>\<open>image_url || null\<close>.\<close>

definition or_null :: "json \<Rightarrow> json" where
  "or_null v = (if truthy v then v else JNull)"

text \<open>
  What a value is in the JSON text the client of the store sends and the store answers
  with: a number that is not finite is written \<open>null\<close>; an absent field stays absent.
\<close>

fun as_JSON :: "json \<Rightarrow> json" where
  "as_JSON (JNum NaN) = JNull"
| "as_JSON (JNum PosInfinity) = JNull"
| "as_JSON (JNum NegInfinity) = JNull"
| "as_JSON v = v"

subsection \<open>The store\<close>

text \<open>
  The two tables the program reads and writes. Identifiers are the store's key values
  (the textual forms they take in a URL or a body are identified with them).
  \<open>c_id\<close> and \<open>c_created_at\<close> are filled in by the store on insert; the other columns
  of a course hold the JSON values the handler sends, a field the request leaves out
  staying \<open>JUndefined\<close>. The store has no constraint and no trigger of its own: rows
  change only where a handler changes them.
\<close>

record course_row =
  c_id :: nat
  c_created_at :: nat
  c_title :: json
  c_description :: json
  c_level :: json
  c_price :: json
  c_image_url :: json

record enrollment_row =
  e_id :: nat
  e_course_id :: nat
  e_user_email :: string
  e_status :: string

record store =
  courses :: "course_row list"
  enrollments :: "enrollment_row list"
  next_course_id :: nat
  next_enrollment_id :: nat

text \<open>
  A call of the store's client resolves to \<open>{ data, error }\<close>. A fault is the error
  message of a call that fails for a reason outside the program (\<open>None\<close>: no fault);
  a failed call leaves the store as it was.
\<close>

type_synonym fault = "string option"

type_synonym 'a db_result = "'a option \<times> string option"

definition maybeSingle :: "fault \<Rightarrow> 'a list \<Rightarrow> 'a db_result" where
  "maybeSingle f rows =
     (case f of
        Some msg \<Rightarrow> (None, Some msg)
      | None \<Rightarrow> (case rows of
            [] \<Rightarrow> (None, None)
          | [r] \<Rightarrow> (Some r, None)
          | _ \<Rightarrow> (None, Some ''JSON object requested, multiple (or no) rows returned'')))"

definition single :: "fault \<Rightarrow> 'a list \<Rightarrow> 'a db_result" where
  "single f rows =
     (case f of
        Some msg \<Rightarrow> (None, Some msg)
      | None \<Rightarrow> (case rows of
            [r] \<Rightarrow> (Some r, None)
          | _ \<Rightarrow> (None, Some ''JSON object requested, multiple (or no) rows returned'')))"

text \<open>\<open>.eq("course_id", c).eq("user_email", e)\<close> on the enrollments.\<close>

definition matching :: "store \<Rightarrow> nat \<Rightarrow> string \<Rightarrow> enrollment_row list" where
  "matching s course_id em =
     filter (\<lambda>e. e_course_id e = course_id \<and> e_user_email e = em) (enrollments s)"

text \<open>
  \<open>.select("*").order("created_at", { ascending: false })\<close> on the courses: every row,
  the latest first.
\<close>

definition order_created_at_desc :: "course_row list \<Rightarrow> course_row list" where
  "order_created_at_desc rows = rev (sort_key c_created_at rows)"

text \<open>The embedded resource \<open>courses(title)\<close> of an enrollment: the course it refers to.\<close>

definition course_of :: "store \<Rightarrow> enrollment_row \<Rightarrow> course_row option" where
  "course_of s e = find (\<lambda>c. c_id c = e_course_id e) (courses s)"

subsection \<open>Requests, responses and the environment\<close>

text \<open>
  The principal the identity service resolves: its email and, when the metadata has one,
  its \<open>full_name\<close>.
\<close>

record user =
  email :: string
  full_name :: "string option"

record auth_result =
  ar_user :: "user option"
  ar_error :: "string option"

record course_body =
  b_title :: json
  b_description :: json
  b_level :: json
  b_price :: json
  b_image_url :: json

record course_patch =
  p_title :: "json option"
  p_description :: "json option"
  p_level :: "json option"
  p_price :: "json option"
  p_image_url :: "json option"

datatype route =
    GetRoot
  | GetCourses
  | PostCourses course_body
  | PutCourse nat course_patch
  | DeleteCourse nat
  | PostEnroll nat
  | GetMyEnrollments
  | GetEnrollments
  | PutEnrollment nat string
  | GetCertificate nat

record request =
  authorization :: "string option"
  req_route :: route

datatype pdf_op =
    NewDocument string nat
  | LineWidth nat
  | Rect nat nat nat nat
  | Stroke string
  | Font string
  | FontSize nat
  | FillColor string
  | TextAt json nat nat
  | Text json
  | MoveDown nat
  | MoveTo nat nat
  | LineTo nat nat
  | End

text \<open>
  What is outside the program: the configured allowlist, the identity service, the clock,
  the date formatter, the PDF writer, which turns the drawing calls on a document into
  the chunks of its \<open>data\<close> events, the time with which the store stamps an inserted
  course, and three conversions of the language: \<open>String.prototype.toLowerCase\<close>,
  \<open>String.prototype.trim\<close> and the conversion of a string to a number that \<open>Number\<close>
  applies. Nothing is assumed of them.
\<close>

record env =
  ADMIN_EMAILS :: "string option"
  getUser :: "string \<Rightarrow> auth_result"
  Date_now :: nat
  toLocaleDateString :: "nat \<Rightarrow> string"
  PDFDocument :: "pdf_op list \<Rightarrow> string list"
  store_now :: nat
  toLowerCase :: "string \<Rightarrow> string"
  trim :: "string \<Rightarrow> string"
  StringToNumber :: "string \<Rightarrow> jsnum"

datatype payload =
    Message string
  | PlainText string
  | CourseList "course_row list"
  | CourseRow course_row
  | MyEnrollments "(nat \<times> json \<times> string) list"
  | Enrollments "(nat \<times> string \<times> json \<times> string) list"
  | Binary string

record response =
  res_status :: nat
  res_type :: string
  res_disposition :: "string option"
  res_body :: payload

text \<open>
  A handler answers, or throws before it has answered (a \<open>TypeError\<close> on reading a
  property of \<open>null\<close>).
\<close>

datatype outcome = Responded response | Threw_TypeError

definition json_response :: "nat \<Rightarrow> payload \<Rightarrow> response" where
  "json_response st b =
     \<lparr>res_status = st, res_type = ''application/json; charset=utf-8'', res_disposition = None, res_body = b\<rparr>"

subsection \<open>Conversion to a number\<close>

text \<open>
  \<open>Number(v)\<close>: a string is converted by the language, and so is the string that an
  array or object yields.
\<close>

fun Number_js :: "env \<Rightarrow> json \<Rightarrow> jsnum" where
  "Number_js ev JUndefined = NaN"
| "Number_js ev JNull = Finite 0"
| "Number_js ev (JBool b) = (if b then Finite 1 else Finite 0)"
| "Number_js ev (JNum n) = n"
| "Number_js ev (JStr s) = StringToNumber ev s"
| "Number_js ev (JObject s) = StringToNumber ev s"

text \<open>\<open>Number(price) || 0\<close>.\<close>

definition price_or_zero :: "env \<Rightarrow> json \<Rightarrow> jsnum" where
  "price_or_zero ev price =
     (let n = Number_js ev price in if truthy_num n then n else Finite 0)"

subsection \<open>The gates\<close>

definition getBearerToken :: "request \<Rightarrow> string option" where
  "getBearerToken req =
     (let h = (case authorization req of None \<Rightarrow> '''' | Some v \<Rightarrow> v)
      in if \<not> startsWith h ''Bearer '' then None else Some (slice_from 7 h))"

text \<open>\<open>Inl\<close>: the gate has answered; \<open>Inr u\<close>: it has set \<open>req.user\<close> and called \<open>next()\<close>.\<close>

definition requireAuth :: "env \<Rightarrow> request \<Rightarrow> response + user" where
  "requireAuth ev req =
     (case getBearerToken req of
        None \<Rightarrow> Inl (json_response 401 (Message ''Missing token''))
      | Some token \<Rightarrow>
          if token = [] then Inl (json_response 401 (Message ''Missing token''))
          else (case (ar_error (getUser ev token), ar_user (getUser ev token)) of
                  (None, Some u) \<Rightarrow> Inr u
                | _ \<Rightarrow> Inl (json_response 401 (Message ''Invalid token''))))"

definition admins :: "env \<Rightarrow> string list" where
  "admins ev =
     map (\<lambda>e. toLowerCase ev (trim ev e))
       (split_comma (case ADMIN_EMAILS ev of None \<Rightarrow> '''' | Some v \<Rightarrow> v))"

text \<open>\<open>Some r\<close>: the gate has answered \<open>r\<close>; \<open>None\<close>: it has called \<open>next()\<close>.\<close>

definition requireAdmin :: "env \<Rightarrow> user \<Rightarrow> response option" where
  "requireAdmin ev u =
     (if toLowerCase ev (email u) \<notin> set (admins ev)
      then Some (json_response 403 (Message ''Admin only''))
      else None)"

text \<open>A route registered behind \<open>requireAuth\<close>, and one behind both gates.\<close>

definition with_auth ::
  "env \<Rightarrow> request \<Rightarrow> store \<Rightarrow> (user \<Rightarrow> outcome \<times> store) \<Rightarrow> outcome \<times> store" where
  "with_auth ev req s handler =
     (case requireAuth ev req of
        Inl r \<Rightarrow> (Responded r, s)
      | Inr u \<Rightarrow> handler u)"

definition with_admin ::
  "env \<Rightarrow> request \<Rightarrow> store \<Rightarrow> (user \<Rightarrow> outcome \<times> store) \<Rightarrow> outcome \<times> store" where
  "with_admin ev req s handler =
     with_auth ev req s
       (\<lambda>u. case requireAdmin ev u of
              Some r \<Rightarrow> (Responded r, s)
            | None \<Rightarrow> handler u)"

subsection \<open>The route handlers\<close>

definition get_root :: outcome where
  "get_root =
     Responded \<lparr>res_status = 200, res_type = ''text/html; charset=utf-8'',
       res_disposition = None,
       res_body = PlainText (''API KursusKu berjalan '' @ [CHR 0xE2, CHR 0x9C, CHR 0x85])\<rparr>"

definition get_courses :: "fault \<Rightarrow> store \<Rightarrow> outcome \<times> store" where
  "get_courses f s =
     (case f of
        Some msg \<Rightarrow> (Responded (json_response 500 (Message msg)), s)
      | None \<Rightarrow>
          (Responded (json_response 200 (CourseList (order_created_at_desc (courses s)))), s))"

text \<open>
  Creating a course: the object the handler builds goes to the store as JSON, and the row
  the store answers with is relayed.
\<close>

definition post_courses :: "env \<Rightarrow> fault \<Rightarrow> course_body \<Rightarrow> store \<Rightarrow> outcome \<times> store" where
  "post_courses ev f b s =
     (case f of
        Some msg \<Rightarrow> (Responded (json_response 500 (Message msg)), s)
      | None \<Rightarrow>
          (let row = \<lparr>c_id = next_course_id s, c_created_at = store_now ev,
                      c_title = as_JSON (b_title b),
                      c_description = as_JSON (b_description b),
                      c_level = as_JSON (b_level b),
                      c_price = as_JSON (JNum (price_or_zero ev (b_price b))),
                      c_image_url = as_JSON (or_null (b_image_url b))\<rparr>
           in (Responded (json_response 200 (CourseRow row)),
               s\<lparr>courses := courses s @ [row], next_course_id := Suc (next_course_id s)\<rparr>)))"

definition apply_patch :: "course_patch \<Rightarrow> course_row \<Rightarrow> course_row" where
  "apply_patch p c =
     c\<lparr>c_title := (case p_title p of None \<Rightarrow> c_title c | Some v \<Rightarrow> as_JSON v),
       c_description :=
         (case p_description p of None \<Rightarrow> c_description c | Some v \<Rightarrow> as_JSON v),
       c_level := (case p_level p of None \<Rightarrow> c_level c | Some v \<Rightarrow> as_JSON v),
       c_price := (case p_price p of None \<Rightarrow> c_price c | Some v \<Rightarrow> as_JSON v),
       c_image_url :=
         (case p_image_url p of None \<Rightarrow> c_image_url c | Some v \<Rightarrow> as_JSON v)\<rparr>"

definition put_course :: "fault \<Rightarrow> nat \<Rightarrow> course_patch \<Rightarrow> store \<Rightarrow> outcome \<times> store" where
  "put_course f cid p s =
     (case f of
        Some msg \<Rightarrow> (Responded (json_response 500 (Message msg)), s)
      | None \<Rightarrow>
          (Responded (json_response 200 (Message ''Updated'')),
           s\<lparr>courses := map (\<lambda>c. if c_id c = cid then apply_patch p c else c) (courses s)\<rparr>))"

definition delete_course :: "fault \<Rightarrow> nat \<Rightarrow> store \<Rightarrow> outcome \<times> store" where
  "delete_course f cid s =
     (case f of
        Some msg \<Rightarrow> (Responded (json_response 500 (Message msg)), s)
      | None \<Rightarrow>
          (Responded (json_response 200 (Message ''Deleted'')),
           s\<lparr>courses := filter (\<lambda>c. c_id c \<noteq> cid) (courses s)\<rparr>))"

text \<open>
  Enrolling: the error of the lookup is not read, only its data; \<open>f1\<close> is the fault of
  the lookup and \<open>f2\<close> that of the insert.
\<close>

definition post_enroll :: "fault \<Rightarrow> fault \<Rightarrow> user \<Rightarrow> nat \<Rightarrow> store \<Rightarrow> outcome \<times> store" where
  "post_enroll f1 f2 u course_id s =
     (case fst (maybeSingle f1 (matching s course_id (email u))) of
        Some existing \<Rightarrow> (Responded (json_response 400 (Message ''Sudah terdaftar'')), s)
      | None \<Rightarrow>
          (case f2 of
             Some msg \<Rightarrow> (Responded (json_response 500 (Message msg)), s)
           | None \<Rightarrow>
               (Responded (json_response 200 (Message ''Pendaftaran berhasil'')),
                s\<lparr>enrollments := enrollments s @
                     [\<lparr>e_id = next_enrollment_id s, e_course_id = course_id,
                       e_user_email = email u, e_status = ''terdaftar''\<rparr>],
                  next_enrollment_id := Suc (next_enrollment_id s)\<rparr>)))"

definition get_my_enrollments :: "fault \<Rightarrow> user \<Rightarrow> store \<Rightarrow> outcome \<times> store" where
  "get_my_enrollments f u s =
     (case f of
        Some msg \<Rightarrow> (Responded (json_response 500 (Message msg)), s)
      | None \<Rightarrow>
          (case those (map (\<lambda>e. map_option (\<lambda>c. (e_course_id e, c_title c, e_status e))
                                   (course_of s e))
                        (filter (\<lambda>e. e_user_email e = email u) (enrollments s))) of
             None \<Rightarrow> (Threw_TypeError, s)
           | Some vs \<Rightarrow> (Responded (json_response 200 (MyEnrollments vs)), s)))"

text \<open>The listing for the administrator does not read the error: on a fault \<open>data\<close> is \<open>null\<close>.\<close>

definition get_enrollments :: "fault \<Rightarrow> store \<Rightarrow> outcome \<times> store" where
  "get_enrollments f s =
     (case f of
        Some msg \<Rightarrow> (Threw_TypeError, s)
      | None \<Rightarrow>
          (case those (map (\<lambda>e. map_option (\<lambda>c. (e_id e, e_user_email e, c_title c, e_status e))
                                   (course_of s e))
                        (enrollments s)) of
             None \<Rightarrow> (Threw_TypeError, s)
           | Some vs \<Rightarrow> (Responded (json_response 200 (Enrollments vs)), s)))"

definition put_enrollment :: "fault \<Rightarrow> nat \<Rightarrow> string \<Rightarrow> store \<Rightarrow> outcome \<times> store" where
  "put_enrollment f eid st s =
     (Responded (json_response 200 (Message ''Status updated'')),
      (case f of
         Some msg \<Rightarrow> s
       | None \<Rightarrow>
           s\<lparr>enrollments :=
                map (\<lambda>e. if e_id e = eid then e\<lparr>e_status := st\<rparr> else e) (enrollments s)\<rparr>))"

text \<open>The drawing calls of the certificate, in the order of the source; every text is centred.\<close>

definition certificate_ops :: "string \<Rightarrow> json \<Rightarrow> string \<Rightarrow> string \<Rightarrow> pdf_op list" where
  "certificate_ops nama courseTitle tanggal nomorSertifikat =
     [NewDocument ''A4'' 50,
      LineWidth 3, Rect 20 20 555 802, Stroke ''#1E3A8A'',
      LineWidth 1, Rect 30 30 535 782, Stroke ''#CBD5E1'',
      Font ''Helvetica-Bold'', FontSize 28, FillColor ''#1E3A8A'',
      TextAt (JStr ''SERTIFIKAT'') 0 110,
      FontSize 20, FillColor ''#000000'', Text (JStr ''KELULUSAN''),
      MoveDown 1,
      MoveTo 150 200, LineTo 450 200, Stroke ''#1E3A8A'',
      MoveDown 3,
      Font ''Helvetica'', FontSize 12, FillColor ''#000000'',
      Text (JStr ''Diberikan kepada:''),
      MoveDown 1,
      Font ''Helvetica-Bold'', FontSize 22, Text (JStr nama),
      MoveDown 2,
      Font ''Helvetica'', FontSize 12,
      Text (JStr ''Atas keberhasilannya menyelesaikan kursus:''),
      MoveDown 1,
      Font ''Helvetica-Bold'', FontSize 18, Text courseTitle,
      MoveDown 3,
      FontSize 12, Font ''Helvetica'', Text (JStr (''Tanggal: '' @ tanggal)),
      MoveDown 4,
      FontSize 10, FillColor ''#374151'',
      Text (JStr (''Nomor Sertifikat: '' @ nomorSertifikat)),
      MoveDown 1,
      FontSize 10, FillColor ''#374151'',
      Text (JStr (''KursusKu '' @ [CHR 0xE2, CHR 0x80, CHR 0x94]
                   @ '' Platform Pembelajaran Bahasa Indonesia'')),
      End]"

definition nama_of :: "env \<Rightarrow> user \<Rightarrow> string" where
  "nama_of ev u =
     (let fn = (case full_name u of None \<Rightarrow> '''' | Some n \<Rightarrow> trim ev n)
      in if fn \<noteq> [] then fn else if email u \<noteq> [] then email u else ''Peserta'')"

definition courseTitle_of :: "store \<Rightarrow> enrollment_row \<Rightarrow> json" where
  "courseTitle_of s enrollment =
     (case course_of s enrollment of
        None \<Rightarrow> JStr ''Kursus''
      | Some c \<Rightarrow> if truthy (c_title c) then c_title c else JStr ''Kursus'')"

definition not_eligible :: response where
  "not_eligible = json_response 403 (Message ''Belum lulus'')"

definition get_certificate :: "env \<Rightarrow> fault \<Rightarrow> user \<Rightarrow> nat \<Rightarrow> store \<Rightarrow> outcome \<times> store" where
  "get_certificate ev f u courseId s =
     (case single f (matching s courseId (email u)) of
        (Some enrollment, None) \<Rightarrow>
          if e_status enrollment \<noteq> ''lulus'' then (Responded not_eligible, s)
          else
            (let nama = nama_of ev u;
                 courseTitle = courseTitle_of s enrollment;
                 tanggal = toLocaleDateString ev (Date_now ev);
                 nomorSertifikat = ''KK-'' @ slice_last 6 (decimal (Date_now ev));
                 chunks = PDFDocument ev (certificate_ops nama courseTitle tanggal nomorSertifikat)
             in (Responded \<lparr>res_status = 200, res_type = ''application/pdf'',
                   res_disposition =
                     Some (''inline; filename='' @ [CHR 0x22] @ ''sertifikat.pdf'' @ [CHR 0x22]),
                   res_body = Binary (concat chunks)\<rparr>, s))
      | _ \<Rightarrow> (Responded not_eligible, s))"

subsection \<open>The application\<close>

text \<open>
  The route table. \<open>flt k\<close> is the fault of the \<open>k\<close>-th call of the store that the
  request makes.
\<close>

definition app :: "env \<Rightarrow> (nat \<Rightarrow> fault) \<Rightarrow> request \<Rightarrow> store \<Rightarrow> outcome \<times> store" where
  "app ev flt req s =
     (case req_route req of
        GetRoot \<Rightarrow> (get_root, s)
      | GetCourses \<Rightarrow> get_courses (flt 0) s
      | PostCourses b \<Rightarrow> with_admin ev req s (\<lambda>u. post_courses ev (flt 0) b s)
      | PutCourse cid p \<Rightarrow> with_admin ev req s (\<lambda>u. put_course (flt 0) cid p s)
      | DeleteCourse cid \<Rightarrow> with_admin ev req s (\<lambda>u. delete_course (flt 0) cid s)
      | PostEnroll course_id \<Rightarrow>
          with_auth ev req s (\<lambda>u. post_enroll (flt 0) (flt 1) u course_id s)
      | GetMyEnrollments \<Rightarrow> with_auth ev req s (\<lambda>u. get_my_enrollments (flt 0) u s)
      | GetEnrollments \<Rightarrow> with_admin ev req s (\<lambda>u. get_enrollments (flt 0) s)
      | PutEnrollment eid st \<Rightarrow> with_admin ev req s (\<lambda>u. put_enrollment (flt 0) eid st s)
      | GetCertificate courseId \<Rightarrow>
          with_auth ev req s (\<lambda>u. get_certificate ev (flt 0) u courseId s))"

text \<open>The routes registered with \<open>requireAuth\<close>, and those registered with \<open>requireAdmin\<close> too.\<close>

fun behind_requireAuth :: "route \<Rightarrow> bool" where
  "behind_requireAuth GetRoot = False"
| "behind_requireAuth GetCourses = False"
| "behind_requireAuth r = True"

fun behind_requireAdmin :: "route \<Rightarrow> bool" where
  "behind_requireAdmin (PostCourses b) = True"
| "behind_requireAdmin (PutCourse cid p) = True"
| "behind_requireAdmin (DeleteCourse cid) = True"
| "behind_requireAdmin GetEnrollments = True"
| "behind_requireAdmin (PutEnrollment eid st) = True"
| "behind_requireAdmin r = False"

text \<open>Requests served one after the other, none of them meeting a fault of the store.\<close>

definition no_fault :: "nat \<Rightarrow> fault" where
  "no_fault k = None"

fun serve_all :: "(env \<times> request) list \<Rightarrow> store \<Rightarrow> store" where
  "serve_all [] s = s"
| "serve_all ((ev, req) # rest) s = serve_all rest (snd (app ev no_fault req s))"

subsection \<open>A concrete deployment, for evaluating the handlers\<close>

text \<open>
  A deployment in which every string is ASCII. On ASCII strings the language's
  \<open>toLowerCase\<close> maps the letters A to Z to a to z, and its \<open>trim\<close> removes the
  leading and trailing space, tab, line feed, vertical tab, form feed and carriage
  return; the two functions below do that, and stand for the language on such strings only.
\<close>

definition ascii_toLowerCase_char :: "char \<Rightarrow> char" where
  "ascii_toLowerCase_char c =
     (case map_of (zip ''ABCDEFGHIJKLMNOPQRSTUVWXYZ'' ''abcdefghijklmnopqrstuvwxyz'') c of
        None \<Rightarrow> c
      | Some d \<Rightarrow> d)"

definition ascii_toLowerCase :: "string \<Rightarrow> string" where
  "ascii_toLowerCase s = map ascii_toLowerCase_char s"

definition ascii_isWhiteSpace :: "char \<Rightarrow> bool" where
  "ascii_isWhiteSpace c =
     (c \<in> set [CHR '' '', CHR 0x09, CHR 0x0A, CHR 0x0B, CHR 0x0C, CHR 0x0D])"

definition ascii_trim :: "string \<Rightarrow> string" where
  "ascii_trim s = rev (dropWhile ascii_isWhiteSpace (rev (dropWhile ascii_isWhiteSpace s)))"

text \<open>
  The only string the examples convert to a number is the price \<open>"abc"\<close>, which is no
  numeric literal: its conversion is NaN. The stand-in below gives that answer; its value
  at any other string is not used.
\<close>

definition example_StringToNumber :: "string \<Rightarrow> jsnum" where
  "example_StringToNumber s = NaN"

definition example_getUser :: "string \<Rightarrow> auth_result" where
  "example_getUser token =
     (if token = ''tok-siti'' then
        \<lparr>ar_user = Some \<lparr>email = ''siti@example.com'', full_name = Some '' Siti Rahma ''\<rparr>,
          ar_error = None\<rparr>
      else if token = ''tok-budi'' then
        \<lparr>ar_user = Some \<lparr>email = ''budi@example.com'', full_name = None\<rparr>, ar_error = None\<rparr>
      else if token = ''tok-admin'' then
        \<lparr>ar_user = Some \<lparr>email = ''Admin@KursusKu.id'', full_name = None\<rparr>, ar_error = None\<rparr>
      else if token = ''tok-anon'' then
        \<lparr>ar_user = Some \<lparr>email = '''', full_name = None\<rparr>, ar_error = None\<rparr>
      else \<lparr>ar_user = None, ar_error = Some ''invalid JWT''\<rparr>)"

definition example_env :: env where
  "example_env =
     \<lparr>ADMIN_EMAILS = Some ''guru@kursusku.id, admin@KURSUSKU.id'',
       getUser = example_getUser,
       Date_now = 1762165432,
       toLocaleDateString = (\<lambda>t. ''3 November 2026''),
       PDFDocument = (\<lambda>ops. [''%PDF-1.3'', ''%%EOF'']),
       store_now = 300,
       toLowerCase = ascii_toLowerCase,
       trim = ascii_trim,
       StringToNumber = example_StringToNumber\<rparr>"

text \<open>The same deployment with \<open>ADMIN_EMAILS\<close> not set.\<close>

definition unconfigured_env :: env where
  "unconfigured_env = example_env\<lparr>ADMIN_EMAILS := None\<rparr>"

definition example_store :: store where
  "example_store =
     \<lparr>courses =
        [\<lparr>c_id = 5, c_created_at = 100, c_title = JStr ''Bahasa A1'', c_description = JNull,
          c_level = JStr ''A1'', c_price = JNum (Finite 150000), c_image_url = JNull\<rparr>,
         \<lparr>c_id = 6, c_created_at = 200, c_title = JStr ''Bahasa A2'', c_description = JNull,
          c_level = JStr ''A2'', c_price = JNum (Finite 0), c_image_url = JNull\<rparr>],
      enrollments =
        [\<lparr>e_id = 1, e_course_id = 5, e_user_email = ''siti@example.com'', e_status = ''lulus''\<rparr>,
         \<lparr>e_id = 2, e_course_id = 6, e_user_email = ''siti@example.com'', e_status = ''passed''\<rparr>],
      next_course_id = 7,
      next_enrollment_id = 3\<rparr>"

definition example_request :: "string \<Rightarrow> route \<Rightarrow> request" where
  "example_request token r = \<lparr>authorization = Some (''Bearer '' @ token), req_route = r\<rparr>"

definition example_course_body :: "json \<Rightarrow> course_body" where
  "example_course_body price =
     \<lparr>b_title = JStr ''Bahasa A1'', b_description = JUndefined, b_level = JUndefined,
       b_price = price, b_image_url = JUndefined\<rparr>"

section \<open>Properties\<close>

subsection \<open>The gates in front of a handler\<close>

lemma with_auth_rejected:
  "requireAuth ev req = Inl r \<Longrightarrow> with_auth ev req s h = (Responded r, s)"
  by (simp add: with_auth_def)

lemma with_auth_passed:
  "requireAuth ev req = Inr u \<Longrightarrow> with_auth ev req s h = h u"
  by (simp add: with_auth_def)

lemma with_admin_rejected_auth:
  "requireAuth ev req = Inl r \<Longrightarrow> with_admin ev req s h = (Responded r, s)"
  by (simp add: with_admin_def with_auth_def)

lemma with_admin_passed:
  "requireAuth ev req = Inr u \<Longrightarrow> requireAdmin ev u = None \<Longrightarrow> with_admin ev req s h = h u"
  by (simp add: with_admin_def with_auth_def)

lemma with_admin_rejected:
  "requireAuth ev req = Inr u \<Longrightarrow> requireAdmin ev u = Some r \<Longrightarrow>
   with_admin ev req s h = (Responded r, s)"
  by (simp add: with_admin_def with_auth_def)

lemma app_behind_auth_rejected:
  "behind_requireAuth (req_route req) \<Longrightarrow> requireAuth ev req = Inl r \<Longrightarrow>
   app ev flt req s = (Responded r, s)"
  by (cases "req_route req")
     (simp_all add: app_def with_auth_rejected with_admin_rejected_auth)

lemma app_behind_admin_rejected:
  "behind_requireAdmin (req_route req) \<Longrightarrow> requireAuth ev req = Inr u \<Longrightarrow>
   requireAdmin ev u = Some r \<Longrightarrow> app ev flt req s = (Responded r, s)"
  by (cases "req_route req") (simp_all add: app_def with_admin_rejected)

lemma requireAuth_rejects:
  assumes "case getBearerToken req of
             None \<Rightarrow> True
           | Some token \<Rightarrow> token = [] \<or> ar_error (getUser ev token) \<noteq> None
                             \<or> ar_user (getUser ev token) = None"
  shows "\<exists>msg. requireAuth ev req = Inl (json_response 401 (Message msg))"
  using assms by (auto simp: requireAuth_def split: option.splits)

subsection \<open>The concrete deployment, evaluated\<close>

lemma ex_auth_siti:
  "requireAuth example_env (example_request ''tok-siti'' r) =
     Inr \<lparr>email = ''siti@example.com'', full_name = Some '' Siti Rahma ''\<rparr>"
  by (simp add: requireAuth_def getBearerToken_def example_request_def startsWith_def
        slice_from_def example_env_def example_getUser_def)

lemma ex_auth_budi:
  "requireAuth example_env (example_request ''tok-budi'' r) =
     Inr \<lparr>email = ''budi@example.com'', full_name = None\<rparr>"
  by (simp add: requireAuth_def getBearerToken_def example_request_def startsWith_def
        slice_from_def example_env_def example_getUser_def)

lemma ex_auth_admin:
  "requireAuth example_env (example_request ''tok-admin'' r) =
     Inr \<lparr>email = ''Admin@KursusKu.id'', full_name = None\<rparr>"
  by (simp add: requireAuth_def getBearerToken_def example_request_def startsWith_def
        slice_from_def example_env_def example_getUser_def)

lemma ex_admins: "admins example_env = [''guru@kursusku.id'', ''admin@kursusku.id'']"
  by (simp add: admins_def example_env_def ascii_trim_def ascii_isWhiteSpace_def
        ascii_toLowerCase_def ascii_toLowerCase_char_def)

lemma ex_admin_passes:
  "requireAdmin example_env \<lparr>email = ''Admin@KursusKu.id'', full_name = None\<rparr> = None"
  by (simp add: requireAdmin_def ex_admins)
     (simp add: example_env_def ascii_toLowerCase_def ascii_toLowerCase_char_def)

subsection \<open>The routes, once the gates have passed\<close>

lemma app_post_courses:
  "req_route req = PostCourses b \<Longrightarrow> requireAuth ev req = Inr u \<Longrightarrow>
   requireAdmin ev u = None \<Longrightarrow> app ev flt req s = post_courses ev (flt 0) b s"
  by (simp add: app_def with_admin_passed)

lemma app_post_enroll:
  "req_route req = PostEnroll c \<Longrightarrow> requireAuth ev req = Inr u \<Longrightarrow>
   app ev flt req s = post_enroll (flt 0) (flt 1) u c s"
  by (simp add: app_def with_auth_passed)

lemma app_put_enrollment:
  "req_route req = PutEnrollment eid st \<Longrightarrow> requireAuth ev req = Inr u \<Longrightarrow>
   requireAdmin ev u = None \<Longrightarrow> app ev flt req s = put_enrollment (flt 0) eid st s"
  by (simp add: app_def with_admin_passed)

lemma app_get_certificate:
  "req_route req = GetCertificate c \<Longrightarrow> requireAuth ev req = Inr u \<Longrightarrow>
   app ev flt req s = get_certificate ev (flt 0) u c s"
  by (simp add: app_def with_auth_passed)

lemma ex_route: "req_route (example_request t r) = r"
  by (simp add: example_request_def)

lemma post_courses_inserted:
  "post_courses ev None b s =
     (Responded (json_response 200 (CourseRow
        \<lparr>c_id = next_course_id s, c_created_at = store_now ev,
          c_title = as_JSON (b_title b), c_description = as_JSON (b_description b),
          c_level = as_JSON (b_level b),
          c_price = as_JSON (JNum (price_or_zero ev (b_price b))),
          c_image_url = as_JSON (or_null (b_image_url b))\<rparr>)),
      s\<lparr>courses := courses s @
           [\<lparr>c_id = next_course_id s, c_created_at = store_now ev,
             c_title = as_JSON (b_title b), c_description = as_JSON (b_description b),
             c_level = as_JSON (b_level b),
             c_price = as_JSON (JNum (price_or_zero ev (b_price b))),
             c_image_url = as_JSON (or_null (b_image_url b))\<rparr>],
         next_course_id := Suc (next_course_id s)\<rparr>)"
  by (simp add: post_courses_def Let_def)

lemma post_courses_failed:
  "post_courses ev (Some msg) b s = (Responded (json_response 500 (Message msg)), s)"
  by (simp add: post_courses_def)

lemma stored_price:
  "as_JSON (JNum (price_or_zero ev p)) =
     (case Number_js ev p of
        NaN \<Rightarrow> JNum (Finite 0)
      | PosInfinity \<Rightarrow> JNull
      | NegInfinity \<Rightarrow> JNull
      | Finite r \<Rightarrow> JNum (Finite r))"
  by (cases "Number_js ev p") (simp_all add: price_or_zero_def)

lemma ex_budi_enrolls:
  "c = 5 \<or> c = 6 \<Longrightarrow>
   app example_env no_fault (example_request ''tok-budi'' (PostEnroll c)) example_store =
     (Responded (json_response 200 (Message ''Pendaftaran berhasil'')),
      example_store\<lparr>enrollments := enrollments example_store @
          [\<lparr>e_id = 3, e_course_id = c, e_user_email = ''budi@example.com'',
            e_status = ''terdaftar''\<rparr>],
        next_enrollment_id := 4\<rparr>)"
  by (auto simp: app_post_enroll [OF ex_route ex_auth_budi] post_enroll_def maybeSingle_def
        matching_def no_fault_def example_store_def)

subsection \<open>C1: who gets a certificate\<close>

lemma single_no_error:
  "snd (single f rows) = None \<longleftrightarrow> f = None \<and> (\<exists>r. rows = [r])"
  by (auto simp: single_def split: option.splits list.splits)

lemma single_error:
  "snd (single f rows) \<noteq> None \<Longrightarrow> single f rows = (None, snd (single f rows))"
  by (auto simp: single_def split: option.splits list.splits)

lemma get_certificate_not_eligible:
  assumes "\<forall>e \<in> set (enrollments s).
             e_course_id e = c \<and> e_user_email e = email u \<longrightarrow> e_status e \<noteq> ''lulus''"
  shows "get_certificate ev f u c s = (Responded not_eligible, s)"
proof (cases "snd (single f (matching s c (email u))) = None")
  case True
  then obtain r where f: "f = None" and rows: "matching s c (email u) = [r]"
    by (auto simp: single_no_error)
  from rows have "r \<in> set (matching s c (email u))"
    by simp
  then have "e_status r \<noteq> ''lulus''"
    using assms by (auto simp: matching_def)
  then show ?thesis
    by (simp add: get_certificate_def f rows single_def)
next
  case False
  from single_error [OF this] show ?thesis
    using False by (auto simp: get_certificate_def split: option.splits)
qed

lemma get_certificate_eligible:
  assumes "e \<in> set (enrollments s)" and "e_course_id e = c" and "e_user_email e = email u"
    and "e_status e = ''lulus''"
    and "snd (single f (matching s c (email u))) = None"
  shows "get_certificate ev f u c s =
           (Responded \<lparr>res_status = 200, res_type = ''application/pdf'',
              res_disposition =
                Some (''inline; filename='' @ [CHR 0x22] @ ''sertifikat.pdf'' @ [CHR 0x22]),
              res_body = Binary (concat (PDFDocument ev
                (certificate_ops (nama_of ev u) (courseTitle_of s e)
                   (toLocaleDateString ev (Date_now ev))
                   (''KK-'' @ slice_last 6 (decimal (Date_now ev))))))\<rparr>, s)"
proof -
  from assms(5) obtain r where f: "f = None" and rows: "matching s c (email u) = [r]"
    by (auto simp: single_no_error)
  have "e \<in> set (matching s c (email u))"
    using assms(1,2,3) by (simp add: matching_def)
  with rows have "r = e"
    by simp
  with f rows assms(4) show ?thesis
    by (simp add: get_certificate_def single_def Let_def)
qed

text \<open>
  C1 as stated (the certificate is given for the status "passed") fails: an enrollment
  whose status is exactly "passed", found by a lookup that succeeds, is answered 403.
\<close>

theorem certificate_passed_counterexample:
  "single (no_fault 0) (matching example_store 6 ''siti@example.com'') =
     (Some \<lparr>e_id = 2, e_course_id = 6, e_user_email = ''siti@example.com'',
             e_status = ''passed''\<rparr>, None) \<and>
   app example_env no_fault (example_request ''tok-siti'' (GetCertificate 6)) example_store =
     (Responded (json_response 403 (Message ''Belum lulus'')), example_store)"
  by (simp add: app_get_certificate [OF ex_route ex_auth_siti] get_certificate_def single_def
        matching_def no_fault_def not_eligible_def example_store_def)

text \<open>
  C1, amended. For every certificate request GET /api/certificates/:courseId by an
  authenticated principal: if no enrollment for (courseId, principal email) has status
  exactly "lulus", the response is HTTP 403 with the JSON message "Belum lulus" and no
  PDF body; if such a "lulus" enrollment exists and the lookup succeeds, the response
  has status 200, content type application/pdf and as its body the bytes the PDF writer
  emitted for the certificate; the body is not empty, the writer being one that never
  emits an empty document.
\<close>

theorem certificate_requires_lulus:
  assumes "req_route req = GetCertificate courseId"
    and "requireAuth ev req = Inr u"
  shows "((\<forall>e \<in> set (enrollments s).
             e_course_id e = courseId \<and> e_user_email e = email u \<longrightarrow> e_status e \<noteq> ''lulus'')
          \<longrightarrow> (\<exists>r. app ev flt req s = (Responded r, s) \<and> res_status r = 403 \<and>
                   res_type r = ''application/json; charset=utf-8'' \<and>
                   res_body r = Message ''Belum lulus'')) \<and>
         ((\<exists>e \<in> set (enrollments s).
             e_course_id e = courseId \<and> e_user_email e = email u \<and> e_status e = ''lulus'') \<and>
          snd (single (flt 0) (matching s courseId (email u))) = None \<and>
          (\<forall>ops. concat (PDFDocument ev ops) \<noteq> [])
          \<longrightarrow> (\<exists>r bytes. app ev flt req s = (Responded r, s) \<and> res_status r = 200 \<and>
                   res_type r = ''application/pdf'' \<and> res_body r = Binary bytes \<and> bytes \<noteq> []))"
proof (intro conjI impI)
  assume "\<forall>e \<in> set (enrollments s).
             e_course_id e = courseId \<and> e_user_email e = email u \<longrightarrow> e_status e \<noteq> ''lulus''"
  then have "app ev flt req s = (Responded not_eligible, s)"
    by (simp add: app_get_certificate [OF assms] get_certificate_not_eligible)
  then show "\<exists>r. app ev flt req s = (Responded r, s) \<and> res_status r = 403 \<and>
               res_type r = ''application/json; charset=utf-8'' \<and>
               res_body r = Message ''Belum lulus''"
    by (simp add: not_eligible_def json_response_def)
next
  assume a: "(\<exists>e \<in> set (enrollments s).
             e_course_id e = courseId \<and> e_user_email e = email u \<and> e_status e = ''lulus'') \<and>
          snd (single (flt 0) (matching s courseId (email u))) = None \<and>
          (\<forall>ops. concat (PDFDocument ev ops) \<noteq> [])"
  then obtain e where e: "e \<in> set (enrollments s)" "e_course_id e = courseId"
      "e_user_email e = email u" "e_status e = ''lulus''"
    by blast
  from a have ok: "snd (single (flt 0) (matching s courseId (email u))) = None"
    by blast
  from a have nonempty: "concat (PDFDocument ev ops) \<noteq> []" for ops
    by blast
  let ?bytes = "concat (PDFDocument ev
      (certificate_ops (nama_of ev u) (courseTitle_of s e) (toLocaleDateString ev (Date_now ev))
         (''KK-'' @ slice_last 6 (decimal (Date_now ev)))))"
  let ?r = "\<lparr>res_status = 200, res_type = ''application/pdf'',
      res_disposition = Some (''inline; filename='' @ [CHR 0x22] @ ''sertifikat.pdf'' @ [CHR 0x22]),
      res_body = Binary ?bytes\<rparr>"
  have run: "app ev flt req s = (Responded ?r, s)"
    by (simp only: app_get_certificate [OF assms] get_certificate_eligible [OF e ok])
  have ne: "?bytes \<noteq> []"
    by (rule nonempty)
  have "res_status ?r = 200 \<and> res_type ?r = ''application/pdf'' \<and> res_body ?r = Binary ?bytes"
    by simp
  with run ne
  show "\<exists>r bytes. app ev flt req s = (Responded r, s) \<and> res_status r = 200 \<and>
          res_type r = ''application/pdf'' \<and> res_body r = Binary bytes \<and> bytes \<noteq> []"
    by blast
qed

theorem certificate_requires_lulus_witness:
  "(\<exists>r. app example_env no_fault (example_request ''tok-siti'' (GetCertificate 6)) example_store
          = (Responded r, example_store) \<and> res_status r = 403 \<and>
        res_type r = ''application/json; charset=utf-8'' \<and>
        res_body r = Message ''Belum lulus'') \<and>
   (\<exists>r bytes. app example_env no_fault (example_request ''tok-siti'' (GetCertificate 5))
          example_store = (Responded r, example_store) \<and> res_status r = 200 \<and>
        res_type r = ''application/pdf'' \<and> res_body r = Binary bytes \<and> bytes \<noteq> [])"
proof -
  have no_lulus: "\<forall>e \<in> set (enrollments example_store).
      e_course_id e = 6 \<and>
      e_user_email e = email \<lparr>email = ''siti@example.com'', full_name = Some '' Siti Rahma ''\<rparr>
      \<longrightarrow> e_status e \<noteq> ''lulus''"
    by (simp add: example_store_def)
  have lulus: "(\<exists>e \<in> set (enrollments example_store).
      e_course_id e = 5 \<and>
      e_user_email e = email \<lparr>email = ''siti@example.com'', full_name = Some '' Siti Rahma ''\<rparr>
      \<and> e_status e = ''lulus'') \<and>
      snd (single (no_fault 0) (matching example_store 5
        (email \<lparr>email = ''siti@example.com'', full_name = Some '' Siti Rahma ''\<rparr>))) = None \<and>
      (\<forall>ops. concat (PDFDocument example_env ops) \<noteq> [])"
    by (simp add: example_store_def single_def matching_def no_fault_def example_env_def)
  note six = certificate_requires_lulus
      [where flt = no_fault and s = example_store, OF ex_route ex_auth_siti, THEN conjunct1]
  note five = certificate_requires_lulus
      [where flt = no_fault and s = example_store, OF ex_route ex_auth_siti, THEN conjunct2]
  from six [of 6] no_lulus five [of 5] lulus show ?thesis
    by blast
qed

subsection \<open>C2: enrolling twice\<close>

lemma with_auth_cases:
  obtains r where "with_auth ev req s h = (Responded r, s)"
  | u where "with_auth ev req s h = h u"
  by (cases "requireAuth ev req") (auto simp: with_auth_def)

lemma with_admin_cases:
  obtains r where "with_admin ev req s h = (Responded r, s)"
  | u where "with_admin ev req s h = h u"
  unfolding with_admin_def
  by (rule with_auth_cases [of ev req s
        "\<lambda>u. case requireAdmin ev u of Some r \<Rightarrow> (Responded r, s) | None \<Rightarrow> h u"])
     (auto split: option.splits)

lemma maybeSingle_found:
  "length rows = 1 \<Longrightarrow> \<exists>r. maybeSingle None rows = (Some r, None)"
  by (cases rows) (auto simp: maybeSingle_def split: list.splits)

lemma post_enroll_keeps_match:
  assumes "length (matching s c em) = 1"
  shows "length (matching (snd (post_enroll None None u c' s)) c em) = 1"
proof (cases "c' = c \<and> email u = em")
  case True
  with maybeSingle_found [OF assms] show ?thesis
    using assms by (auto simp: post_enroll_def)
next
  case False
  then have "matching (snd (post_enroll None None u c' s)) c em = matching s c em"
    by (auto simp: post_enroll_def matching_def split: option.splits)
  with assms show ?thesis
    by simp
qed

lemma put_enrollment_keeps_match:
  "length (matching (snd (put_enrollment f eid st s)) c em) = length (matching s c em)"
proof (cases f)
  case None
  have "length (filter (\<lambda>e. e_course_id e = c \<and> e_user_email e = em)
          (map (\<lambda>e. if e_id e = eid then e\<lparr>e_status := st\<rparr> else e) xs)) =
        length (filter (\<lambda>e. e_course_id e = c \<and> e_user_email e = em) xs)" for xs
    by (induction xs) auto
  then show ?thesis
    by (simp add: put_enrollment_def matching_def None del: filter_map)
next
  case (Some msg)
  then show ?thesis
    by (simp add: put_enrollment_def)
qed

lemma app_keeps_match:
  assumes "length (matching s c em) = 1"
  shows "length (matching (snd (app ev no_fault req s)) c em) = 1"
proof (cases "req_route req")
  case GetRoot
  then show ?thesis using assms by (simp add: app_def)
next
  case GetCourses
  then show ?thesis using assms by (simp add: app_def get_courses_def no_fault_def)
next
  case (PostCourses b)
  show ?thesis
    by (rule with_admin_cases [of ev req s "\<lambda>u. post_courses ev (no_fault 0) b s"])
       (use assms PostCourses in
         \<open>auto simp: app_def post_courses_def no_fault_def Let_def matching_def\<close>)
next
  case (PutCourse cid p)
  show ?thesis
    by (rule with_admin_cases [of ev req s "\<lambda>u. put_course (no_fault 0) cid p s"])
       (use assms PutCourse in \<open>auto simp: app_def put_course_def no_fault_def matching_def\<close>)
next
  case (DeleteCourse cid)
  show ?thesis
    by (rule with_admin_cases [of ev req s "\<lambda>u. delete_course (no_fault 0) cid s"])
       (use assms DeleteCourse in
         \<open>auto simp: app_def delete_course_def no_fault_def matching_def\<close>)
next
  case (PostEnroll c')
  show ?thesis
    by (rule with_auth_cases [of ev req s "\<lambda>u. post_enroll (no_fault 0) (no_fault 1) u c' s"])
       (use assms PostEnroll post_enroll_keeps_match [OF assms] in
         \<open>auto simp: app_def no_fault_def\<close>)
next
  case GetMyEnrollments
  show ?thesis
    by (rule with_auth_cases [of ev req s "\<lambda>u. get_my_enrollments (no_fault 0) u s"])
       (use assms GetMyEnrollments in
         \<open>auto simp: app_def get_my_enrollments_def no_fault_def split: option.splits\<close>)
next
  case GetEnrollments
  show ?thesis
    by (rule with_admin_cases [of ev req s "\<lambda>u. get_enrollments (no_fault 0) s"])
       (use assms GetEnrollments in
         \<open>auto simp: app_def get_enrollments_def no_fault_def split: option.splits\<close>)
next
  case (PutEnrollment eid st)
  show ?thesis
    by (rule with_admin_cases [of ev req s "\<lambda>u. put_enrollment (no_fault 0) eid st s"])
       (use assms PutEnrollment put_enrollment_keeps_match [of "no_fault 0" eid st s c em] in
         \<open>auto simp: app_def\<close>)
next
  case (GetCertificate c')
  show ?thesis
    by (rule with_auth_cases [of ev req s "\<lambda>u. get_certificate ev (no_fault 0) u c' s"])
       (use assms GetCertificate in
         \<open>auto simp: app_def get_certificate_def not_eligible_def Let_def
            split: prod.splits option.splits\<close>)
qed

lemma serve_all_keeps_match:
  "length (matching s c em) = 1 \<Longrightarrow> length (matching (serve_all rs s) c em) = 1"
proof (induction rs arbitrary: s)
  case Nil
  then show ?case by simp
next
  case (Cons a rs)
  obtain ev req where a: "a = (ev, req)"
    by (cases a)
  from Cons.prems have "length (matching (snd (app ev no_fault req s)) c em) = 1"
    by (rule app_keeps_match)
  then show ?case
    unfolding a by (simp add: Cons.IH)
qed

lemma post_enroll_first:
  assumes "post_enroll f1 f2 u c s = (Responded r, s')" and "res_status r = 200"
    and "snd (maybeSingle f1 (matching s c (email u))) = None"
  shows "length (matching s' c (email u)) = 1"
proof -
  from assms(1,2) have none: "fst (maybeSingle f1 (matching s c (email u))) = None"
    by (auto simp: post_enroll_def json_response_def split: option.splits)
  with assms(3) have "matching s c (email u) = []"
    by (auto simp: maybeSingle_def split: option.splits list.splits)
  moreover from assms(1,2) none have
    "enrollments s' = enrollments s @
       [\<lparr>e_id = next_enrollment_id s, e_course_id = c, e_user_email = email u,
         e_status = ''terdaftar''\<rparr>]"
    by (auto simp: post_enroll_def json_response_def split: option.splits)
  ultimately show ?thesis
    by (simp add: matching_def)
qed

text \<open>
  C2. Let a POST /api/enroll call of a principal for a course succeed (status 200), its
  lookup having returned no error. Let any requests be served after it, one after the
  other and without a fault of the store. Then a further POST /api/enroll call for the
  same course by a principal with the same email, whose lookup meets no fault, is
  answered HTTP 400 with the message "Sudah terdaftar", and the store is left as it was:
  no second enrollment is inserted.
\<close>

theorem second_enroll_rejected:
  assumes "req_route req1 = PostEnroll course_id"
    and "requireAuth ev1 req1 = Inr u1"
    and "snd (maybeSingle (flt 0) (matching s0 course_id (email u1))) = None"
    and "app ev1 flt req1 s0 = (Responded r1, s1)"
    and "res_status r1 = 200"
    and "s2 = serve_all between s1"
    and "req_route req2 = PostEnroll course_id"
    and "requireAuth ev2 req2 = Inr u2"
    and "email u2 = email u1"
    and "flt' 0 = None"
  shows "app ev2 flt' req2 s2 = (Responded (json_response 400 (Message ''Sudah terdaftar'')), s2)"
proof -
  have "post_enroll (flt 0) (flt 1) u1 course_id s0 = (Responded r1, s1)"
    using assms(4) by (simp add: app_post_enroll [OF assms(1,2)])
  then have "length (matching s1 course_id (email u1)) = 1"
    using assms(5,3) by (rule post_enroll_first)
  then have "length (matching s2 course_id (email u2)) = 1"
    unfolding assms(6,9) by (rule serve_all_keeps_match)
  from maybeSingle_found [OF this] show ?thesis
    by (auto simp: app_post_enroll [OF assms(7,8)] post_enroll_def assms(10))
qed

theorem second_enroll_rejected_witness:
  "app example_env no_fault (example_request ''tok-budi'' (PostEnroll 5))
     (serve_all
        [(example_env, example_request ''tok-admin'' (PutEnrollment 3 ''lulus'')),
         (example_env, example_request ''tok-siti'' (PostEnroll 6)),
         (example_env, example_request ''tok-budi'' (PostEnroll 6))]
        (snd (app example_env no_fault (example_request ''tok-budi'' (PostEnroll 5))
                example_store))) =
   (Responded (json_response 400 (Message ''Sudah terdaftar'')),
    serve_all
        [(example_env, example_request ''tok-admin'' (PutEnrollment 3 ''lulus'')),
         (example_env, example_request ''tok-siti'' (PostEnroll 6)),
         (example_env, example_request ''tok-budi'' (PostEnroll 6))]
        (snd (app example_env no_fault (example_request ''tok-budi'' (PostEnroll 5))
                example_store)))"
proof -
  have "(5::nat) = 5 \<or> (5::nat) = 6"
    by simp
  note e = ex_budi_enrolls [OF this]
  have first: "app example_env no_fault (example_request ''tok-budi'' (PostEnroll 5))
      example_store =
      (Responded (json_response 200 (Message ''Pendaftaran berhasil'')),
       snd (app example_env no_fault (example_request ''tok-budi'' (PostEnroll 5))
              example_store))"
    unfolding e by simp
  have lookup: "snd (maybeSingle (no_fault 0) (matching example_store 5
      (email \<lparr>email = ''budi@example.com'', full_name = None\<rparr>))) = None"
    by (simp add: maybeSingle_def matching_def no_fault_def example_store_def)
  have st: "res_status (json_response 200 (Message ''Pendaftaran berhasil'')) = 200"
    by (simp add: json_response_def)
  have nf: "no_fault 0 = None"
    by (simp add: no_fault_def)
  show ?thesis
    by (rule second_enroll_rejected
              [where flt = no_fault and flt' = no_fault,
               OF ex_route ex_auth_budi lookup first st refl ex_route ex_auth_budi refl nf])
qed

subsection \<open>C3: the authentication gate\<close>

text \<open>
  C3. For every request to a route behind the authentication gate: if the authorization
  header carries no bearer token (no header, no \<open>Bearer\<close> prefix, or an empty token) or
  the identity service rejects the token (it reports an error or resolves no user), the
  response has status 401, the store is untouched, and the same 401 is the result whatever
  handler stands behind the gate, so the handler body is never reached.
\<close>

theorem auth_gate_rejects:
  assumes "behind_requireAuth (req_route req)"
    and "case getBearerToken req of
           None \<Rightarrow> True
         | Some token \<Rightarrow> token = [] \<or> ar_error (getUser ev token) \<noteq> None
                           \<or> ar_user (getUser ev token) = None"
  shows "\<exists>r. res_status r = 401 \<and> app ev flt req s = (Responded r, s) \<and>
             (\<forall>handler. with_auth ev req s handler = (Responded r, s))"
proof -
  from requireAuth_rejects [OF assms(2)]
  obtain msg where rej: "requireAuth ev req = Inl (json_response 401 (Message msg))" ..
  have "res_status (json_response 401 (Message msg)) = 401"
    by (simp add: json_response_def)
  moreover have "app ev flt req s = (Responded (json_response 401 (Message msg)), s)"
    using assms(1) rej by (rule app_behind_auth_rejected)
  moreover have
    "\<forall>handler. with_auth ev req s handler = (Responded (json_response 401 (Message msg)), s)"
    using rej by (simp add: with_auth_rejected)
  ultimately show ?thesis by blast
qed

theorem auth_gate_rejects_witness:
  "behind_requireAuth (req_route (example_request ''expired'' (PostEnroll 5))) \<and>
   (case getBearerToken (example_request ''expired'' (PostEnroll 5)) of
      None \<Rightarrow> True
    | Some token \<Rightarrow> token = [] \<or> ar_error (getUser example_env token) \<noteq> None
                      \<or> ar_user (getUser example_env token) = None) \<and>
   (\<exists>r. res_status r = 401 \<and>
        app example_env no_fault (example_request ''expired'' (PostEnroll 5)) example_store
          = (Responded r, example_store) \<and>
        (\<forall>handler. with_auth example_env (example_request ''expired'' (PostEnroll 5))
                     example_store handler = (Responded r, example_store)))"
proof -
  have h1: "behind_requireAuth (req_route (example_request ''expired'' (PostEnroll 5)))"
    by (simp add: example_request_def)
  have h2: "case getBearerToken (example_request ''expired'' (PostEnroll 5)) of
      None \<Rightarrow> True
    | Some token \<Rightarrow> token = [] \<or> ar_error (getUser example_env token) \<noteq> None
                      \<or> ar_user (getUser example_env token) = None"
    by (simp add: getBearerToken_def example_request_def startsWith_def slice_from_def
          example_env_def example_getUser_def)
  from auth_gate_rejects [OF h1 h2, of no_fault example_store] h1 h2
  show ?thesis by blast
qed

subsection \<open>C4: the administrator gate\<close>

text \<open>
  C4 says that an authenticated principal calling a route behind the administrator gate
  is answered 403 unless its email is on the configured allowlist. The code does not keep
  to this. The allowlist it compares with is \<open>ADMIN_EMAILS.split(",")\<close>, each piece trimmed
  and lower-cased, and splitting the empty text, or a text that ends in a comma, yields
  an empty piece. With \<open>ADMIN_EMAILS\<close> not set, so that no email is allowlisted, a
  principal whose email is the empty string passes the gate: its DELETE /api/courses/5
  is carried out and answered 200.
\<close>

theorem admin_gate_admits_empty_email:
  "admins unconfigured_env = [''''] \<and>
   admins (example_env\<lparr>ADMIN_EMAILS := Some ''admin@kursusku.id,''\<rparr>)
     = [''admin@kursusku.id'', ''''] \<and>
   requireAuth unconfigured_env (example_request ''tok-anon'' (DeleteCourse 5))
     = Inr \<lparr>email = '''', full_name = None\<rparr> \<and>
   requireAdmin unconfigured_env \<lparr>email = '''', full_name = None\<rparr> = None \<and>
   app unconfigured_env no_fault (example_request ''tok-anon'' (DeleteCourse 5)) example_store
     = (Responded (json_response 200 (Message ''Deleted'')),
        example_store\<lparr>courses :=
          [\<lparr>c_id = 6, c_created_at = 200, c_title = JStr ''Bahasa A2'', c_description = JNull,
            c_level = JStr ''A2'', c_price = JNum (Finite 0), c_image_url = JNull\<rparr>]\<rparr>)"
proof -
  have a: "admins unconfigured_env = ['''']"
    by (simp add: admins_def unconfigured_env_def example_env_def ascii_trim_def
          ascii_toLowerCase_def)
  have b: "admins (example_env\<lparr>ADMIN_EMAILS := Some ''admin@kursusku.id,''\<rparr>)
      = [''admin@kursusku.id'', '''']"
    by (simp add: admins_def example_env_def ascii_trim_def ascii_isWhiteSpace_def
          ascii_toLowerCase_def ascii_toLowerCase_char_def)
  have c: "requireAuth unconfigured_env (example_request ''tok-anon'' (DeleteCourse 5))
      = Inr \<lparr>email = '''', full_name = None\<rparr>"
    by (simp add: requireAuth_def getBearerToken_def example_request_def startsWith_def
          slice_from_def unconfigured_env_def example_env_def example_getUser_def)
  have d: "requireAdmin unconfigured_env \<lparr>email = '''', full_name = None\<rparr> = None"
    by (simp add: requireAdmin_def a)
       (simp add: unconfigured_env_def example_env_def ascii_toLowerCase_def)
  have "app unconfigured_env no_fault (example_request ''tok-anon'' (DeleteCourse 5))
      example_store = delete_course (no_fault 0) 5 example_store"
    by (simp add: app_def ex_route with_admin_passed [OF c d])
  then have e: "app unconfigured_env no_fault (example_request ''tok-anon'' (DeleteCourse 5))
      example_store
     = (Responded (json_response 200 (Message ''Deleted'')),
        example_store\<lparr>courses :=
          [\<lparr>c_id = 6, c_created_at = 200, c_title = JStr ''Bahasa A2'', c_description = JNull,
            c_level = JStr ''A2'', c_price = JNum (Finite 0), c_image_url = JNull\<rparr>]\<rparr>)"
    by (simp add: delete_course_def no_fault_def example_store_def)
  from a b c d e show ?thesis
    by (intro conjI)
qed

subsection \<open>C5: the status of a new enrollment\<close>

text \<open>
  C5 as stated (the inserted enrollment has status "registered") fails: a successful
  POST /api/enroll inserts the status "terdaftar".
\<close>

theorem enroll_status_counterexample:
  "fst (app example_env no_fault (example_request ''tok-budi'' (PostEnroll 5)) example_store)
     = Responded (json_response 200 (Message ''Pendaftaran berhasil'')) \<and>
   map e_status (enrollments (snd (app example_env no_fault
        (example_request ''tok-budi'' (PostEnroll 5)) example_store)))
     = [''lulus'', ''passed'', ''terdaftar''] \<and>
   e_status (last (enrollments (snd (app example_env no_fault
        (example_request ''tok-budi'' (PostEnroll 5)) example_store)))) \<noteq> ''registered''"
proof -
  have "(5::nat) = 5 \<or> (5::nat) = 6"
    by simp
  note run = ex_budi_enrolls [OF this]
  show ?thesis
    unfolding run by (simp add: example_store_def)
qed

text \<open>
  C5, amended. For every successful POST /api/enroll call (status 200), the store
  afterwards is the store before with one enrollment appended: that of the requested
  course and the principal's email, with status "terdaftar".
\<close>

theorem enroll_inserts_terdaftar:
  assumes "req_route req = PostEnroll course_id"
    and "requireAuth ev req = Inr u"
    and "app ev flt req s = (Responded r, s')"
    and "res_status r = 200"
  shows "s' = s\<lparr>enrollments := enrollments s @
                   [\<lparr>e_id = next_enrollment_id s, e_course_id = course_id,
                     e_user_email = email u, e_status = ''terdaftar''\<rparr>],
                 next_enrollment_id := Suc (next_enrollment_id s)\<rparr>"
proof -
  have "post_enroll (flt 0) (flt 1) u course_id s = (Responded r, s')"
    using assms(3) by (simp add: app_post_enroll [OF assms(1,2)])
  with assms(4) show ?thesis
    by (auto simp: post_enroll_def json_response_def split: option.splits)
qed

theorem enroll_inserts_terdaftar_witness:
  "\<exists>r. app example_env no_fault (example_request ''tok-budi'' (PostEnroll 6)) example_store
        = (Responded r,
           example_store\<lparr>enrollments := enrollments example_store @
               [\<lparr>e_id = 3, e_course_id = 6, e_user_email = ''budi@example.com'',
                 e_status = ''terdaftar''\<rparr>],
             next_enrollment_id := 4\<rparr>) \<and> res_status r = 200"
proof -
  have run: "app example_env no_fault (example_request ''tok-budi'' (PostEnroll 6)) example_store
      = (Responded (json_response 200 (Message ''Pendaftaran berhasil'')),
         snd (app example_env no_fault (example_request ''tok-budi'' (PostEnroll 6))
                example_store))"
  proof -
    have "(6::nat) = 5 \<or> (6::nat) = 6"
      by simp
    note e = ex_budi_enrolls [OF this]
    show ?thesis
      unfolding e by simp
  qed
  have st: "res_status (json_response 200 (Message ''Pendaftaran berhasil'')) = 200"
    by (simp add: json_response_def)
  have "snd (app example_env no_fault (example_request ''tok-budi'' (PostEnroll 6))
                example_store) =
        example_store\<lparr>enrollments := enrollments example_store @
               [\<lparr>e_id = 3, e_course_id = 6, e_user_email = ''budi@example.com'',
                 e_status = ''terdaftar''\<rparr>],
             next_enrollment_id := 4\<rparr>"
    using enroll_inserts_terdaftar [OF ex_route ex_auth_budi run st]
    by (simp add: example_store_def)
  with run st show ?thesis
    by simp
qed

subsection \<open>C6 and C7: the price of a created course\<close>

text \<open>
  C6. For every POST /api/courses request of an administrator whose price does not
  convert to a number (\<open>Number(price)\<close> is NaN): when the insert goes through, the
  course that is stored, and returned, has price 0; when the insert fails, nothing is
  stored.
\<close>

theorem non_numeric_price_stored_as_zero:
  assumes "req_route req = PostCourses b"
    and "requireAuth ev req = Inr u"
    and "requireAdmin ev u = None"
    and "Number_js ev (b_price b) = NaN"
  shows "(flt 0 = None \<longrightarrow>
            (\<exists>row. app ev flt req s =
               (Responded (json_response 200 (CourseRow row)),
                s\<lparr>courses := courses s @ [row], next_course_id := Suc (next_course_id s)\<rparr>) \<and>
               c_price row = JNum (Finite 0))) \<and>
         (flt 0 \<noteq> None \<longrightarrow> snd (app ev flt req s) = s)"
proof (intro conjI impI)
  assume "flt 0 = None"
  then have "app ev flt req s = post_courses ev None b s"
    by (simp add: app_post_courses [OF assms(1,2,3)])
  moreover have "as_JSON (JNum (price_or_zero ev (b_price b))) = JNum (Finite 0)"
    using assms(4) by (simp add: stored_price)
  ultimately show "\<exists>row. app ev flt req s =
       (Responded (json_response 200 (CourseRow row)),
        s\<lparr>courses := courses s @ [row], next_course_id := Suc (next_course_id s)\<rparr>) \<and>
       c_price row = JNum (Finite 0)"
    by (intro exI [of _ "\<lparr>c_id = next_course_id s, c_created_at = store_now ev,
          c_title = as_JSON (b_title b), c_description = as_JSON (b_description b),
          c_level = as_JSON (b_level b),
          c_price = as_JSON (JNum (price_or_zero ev (b_price b))),
          c_image_url = as_JSON (or_null (b_image_url b))\<rparr>"])
       (simp add: post_courses_inserted)
next
  assume "flt 0 \<noteq> None"
  then obtain msg where "flt 0 = Some msg"
    by auto
  then show "snd (app ev flt req s) = s"
    by (simp add: app_post_courses [OF assms(1,2,3)] post_courses_failed)
qed

theorem non_numeric_price_stored_as_zero_witness:
  "Number_js example_env (b_price (example_course_body (JStr ''abc''))) = NaN \<and>
   (\<exists>row. app example_env no_fault
            (example_request ''tok-admin'' (PostCourses (example_course_body (JStr ''abc''))))
            example_store =
          (Responded (json_response 200 (CourseRow row)),
           example_store\<lparr>courses := courses example_store @ [row],
             next_course_id := Suc (next_course_id example_store)\<rparr>) \<and>
          c_price row = JNum (Finite 0))"
proof -
  have nan: "Number_js example_env (b_price (example_course_body (JStr ''abc''))) = NaN"
    by (simp add: example_course_body_def example_env_def example_StringToNumber_def)
  have r: "req_route (example_request ''tok-admin''
             (PostCourses (example_course_body (JStr ''abc''))))
           = PostCourses (example_course_body (JStr ''abc''))"
    by (rule ex_route)
  from non_numeric_price_stored_as_zero
         [where flt = no_fault and s = example_store, OF r ex_auth_admin ex_admin_passes nan]
  obtain row where
    "app example_env no_fault
        (example_request ''tok-admin'' (PostCourses (example_course_body (JStr ''abc''))))
        example_store =
      (Responded (json_response 200 (CourseRow row)),
       example_store\<lparr>courses := courses example_store @ [row],
         next_course_id := Suc (next_course_id example_store)\<rparr>)"
    and "c_price row = JNum (Finite 0)"
    by (auto simp: no_fault_def)
  then show ?thesis
    using nan by (intro conjI exI [of _ row]) simp_all
qed

text \<open>
  C7 as stated (the stored price is never negative) fails: the price \<open>-5\<close> is stored
  as \<open>-5\<close>.
\<close>

theorem negative_price_counterexample:
  "app example_env no_fault
      (example_request ''tok-admin'' (PostCourses (example_course_body (JNum (Finite (- 5))))))
      example_store =
     (Responded (json_response 200 (CourseRow
        \<lparr>c_id = 7, c_created_at = 300, c_title = JStr ''Bahasa A1'', c_description = JUndefined,
          c_level = JUndefined, c_price = JNum (Finite (- 5)), c_image_url = JNull\<rparr>)),
      example_store\<lparr>courses := courses example_store @
        [\<lparr>c_id = 7, c_created_at = 300, c_title = JStr ''Bahasa A1'', c_description = JUndefined,
          c_level = JUndefined, c_price = JNum (Finite (- 5)), c_image_url = JNull\<rparr>],
        next_course_id := 8\<rparr>) \<and>
   (- 5 :: rat) < 0"
proof -
  have "app example_env no_fault
      (example_request ''tok-admin'' (PostCourses (example_course_body (JNum (Finite (- 5))))))
      example_store = post_courses example_env None (example_course_body (JNum (Finite (- 5))))
        example_store"
    by (simp add: app_post_courses [OF ex_route ex_auth_admin ex_admin_passes] no_fault_def)
  then show ?thesis
    by (simp add: post_courses_inserted example_course_body_def price_or_zero_def or_null_def
          example_env_def example_store_def)
qed

text \<open>
  C7, amended. For every course created through POST /api/courses, the stored price is
  0 when \<open>Number(price)\<close> is NaN or 0, \<open>null\<close> when \<open>Number(price)\<close> is plus or minus
  infinity, and the number \<open>Number(price)\<close> otherwise. It is therefore a non-negative
  number exactly when \<open>Number(price)\<close> is NaN or a finite non-negative number: a price
  that converts to a negative finite number is stored as that negative number.
\<close>

theorem stored_price_is_number_zero_or_null:
  assumes "req_route req = PostCourses b"
    and "requireAuth ev req = Inr u"
    and "requireAdmin ev u = None"
    and "flt 0 = None"
  shows "\<exists>row. app ev flt req s =
            (Responded (json_response 200 (CourseRow row)),
             s\<lparr>courses := courses s @ [row], next_course_id := Suc (next_course_id s)\<rparr>) \<and>
          c_price row =
            (case Number_js ev (b_price b) of
               NaN \<Rightarrow> JNum (Finite 0)
             | PosInfinity \<Rightarrow> JNull
             | NegInfinity \<Rightarrow> JNull
             | Finite r \<Rightarrow> JNum (Finite r)) \<and>
          ((\<exists>r. 0 \<le> r \<and> c_price row = JNum (Finite r)) \<longleftrightarrow>
             Number_js ev (b_price b) = NaN \<or>
             (\<exists>r. 0 \<le> r \<and> Number_js ev (b_price b) = Finite r))"
proof -
  have a: "app ev flt req s = post_courses ev None b s"
    using assms(4) by (simp add: app_post_courses [OF assms(1,2,3)])
  have g: "(\<exists>r. 0 \<le> r \<and> as_JSON (JNum (price_or_zero ev (b_price b))) = JNum (Finite r)) \<longleftrightarrow>
      Number_js ev (b_price b) = NaN \<or> (\<exists>r. 0 \<le> r \<and> Number_js ev (b_price b) = Finite r)"
    by (cases "Number_js ev (b_price b)") (auto simp: stored_price)
  show ?thesis
    unfolding a post_courses_inserted
    by (rule exI [of _ "\<lparr>c_id = next_course_id s, c_created_at = store_now ev,
          c_title = as_JSON (b_title b), c_description = as_JSON (b_description b),
          c_level = as_JSON (b_level b),
          c_price = as_JSON (JNum (price_or_zero ev (b_price b))),
          c_image_url = as_JSON (or_null (b_image_url b))\<rparr>"])
       (simp add: g, simp add: stored_price)
qed

text \<open>
  Two prices sent as JSON numbers: \<open>12.5\<close>, and \<open>1e999\<close>, which the body parser reads as
  plus infinity.
\<close>

theorem stored_price_is_number_zero_or_null_witness:
  "(\<exists>row. app example_env no_fault
            (example_request ''tok-admin'' (PostCourses (example_course_body (JNum (Finite (25 / 2))))))
            example_store =
          (Responded (json_response 200 (CourseRow row)),
           example_store\<lparr>courses := courses example_store @ [row],
             next_course_id := Suc (next_course_id example_store)\<rparr>) \<and>
          c_price row = JNum (Finite (25 / 2))) \<and>
   (\<exists>row. app example_env no_fault
            (example_request ''tok-admin'' (PostCourses (example_course_body (JNum PosInfinity))))
            example_store =
          (Responded (json_response 200 (CourseRow row)),
           example_store\<lparr>courses := courses example_store @ [row],
             next_course_id := Suc (next_course_id example_store)\<rparr>) \<and>
          c_price row = JNull)"
proof -
  have nf: "no_fault 0 = None"
    by (simp add: no_fault_def)
  have r: "req_route (example_request ''tok-admin'' (PostCourses (example_course_body p)))
           = PostCourses (example_course_body p)" for p
    by (rule ex_route)
  from stored_price_is_number_zero_or_null
         [where flt = no_fault and s = example_store, OF r ex_auth_admin ex_admin_passes nf,
          of "JNum (Finite (25 / 2))"]
  obtain row where
    "app example_env no_fault
        (example_request ''tok-admin'' (PostCourses (example_course_body (JNum (Finite (25 / 2))))))
        example_store =
      (Responded (json_response 200 (CourseRow row)),
       example_store\<lparr>courses := courses example_store @ [row],
         next_course_id := Suc (next_course_id example_store)\<rparr>)"
    and "c_price row = JNum (Finite (25 / 2))"
    by (auto simp: example_course_body_def)
  then have one: "\<exists>row. app example_env no_fault
        (example_request ''tok-admin'' (PostCourses (example_course_body (JNum (Finite (25 / 2))))))
        example_store =
      (Responded (json_response 200 (CourseRow row)),
       example_store\<lparr>courses := courses example_store @ [row],
         next_course_id := Suc (next_course_id example_store)\<rparr>) \<and>
      c_price row = JNum (Finite (25 / 2))"
    by (intro exI [of _ row]) simp
  from stored_price_is_number_zero_or_null
         [where flt = no_fault and s = example_store, OF r ex_auth_admin ex_admin_passes nf,
          of "JNum PosInfinity"]
  obtain row' where
    "app example_env no_fault
        (example_request ''tok-admin'' (PostCourses (example_course_body (JNum PosInfinity))))
        example_store =
      (Responded (json_response 200 (CourseRow row')),
       example_store\<lparr>courses := courses example_store @ [row'],
         next_course_id := Suc (next_course_id example_store)\<rparr>)"
    and "c_price row' = JNull"
    by (auto simp: example_course_body_def)
  then have two: "\<exists>row. app example_env no_fault
        (example_request ''tok-admin'' (PostCourses (example_course_body (JNum PosInfinity))))
        example_store =
      (Responded (json_response 200 (CourseRow row)),
       example_store\<lparr>courses := courses example_store @ [row],
         next_course_id := Suc (next_course_id example_store)\<rparr>) \<and>
      c_price row = JNull"
    by (intro exI [of _ row']) simp
  from one two show ?thesis
    by (rule conjI)
qed

subsection \<open>C8: listing the courses\<close>

lemma order_created_at_desc_mset: "mset (order_created_at_desc rows) = mset rows"
  by (simp add: order_created_at_desc_def)

lemma order_created_at_desc_sorted:
  "sorted_wrt (\<lambda>a b. c_created_at b \<le> c_created_at a) (order_created_at_desc rows)"
proof -
  have "sorted (map c_created_at (sort_key c_created_at rows))"
    by simp
  then have "sorted_wrt (\<lambda>a b. c_created_at a \<le> c_created_at b) (sort_key c_created_at rows)"
    by (simp add: sorted_map)
  then show ?thesis
    by (simp add: order_created_at_desc_def sorted_wrt_rev)
qed

text \<open>
  C8. A GET /api/courses request succeeds exactly when the query meets no fault of the
  store; the response then holds every course of the store (each as often as the store
  holds it), ordered by creation time, newest first, and the store is unchanged. With a
  fault the response is a 500 carrying the error message.
\<close>

theorem get_courses_all_newest_first:
  assumes "req_route req = GetCourses"
  shows "(flt 0 = None \<longrightarrow>
           (\<exists>rows. app ev flt req s = (Responded (json_response 200 (CourseList rows)), s) \<and>
              mset rows = mset (courses s) \<and>
              sorted_wrt (\<lambda>a b. c_created_at b \<le> c_created_at a) rows)) \<and>
         (\<forall>msg. flt 0 = Some msg \<longrightarrow>
            app ev flt req s = (Responded (json_response 500 (Message msg)), s))"
proof (intro conjI impI allI)
  assume "flt 0 = None"
  then have "app ev flt req s =
      (Responded (json_response 200 (CourseList (order_created_at_desc (courses s)))), s)"
    using assms by (simp add: app_def get_courses_def)
  then show "\<exists>rows. app ev flt req s = (Responded (json_response 200 (CourseList rows)), s) \<and>
      mset rows = mset (courses s) \<and>
      sorted_wrt (\<lambda>a b. c_created_at b \<le> c_created_at a) rows"
    using order_created_at_desc_mset order_created_at_desc_sorted by blast
next
  fix msg
  assume "flt 0 = Some msg"
  then show "app ev flt req s = (Responded (json_response 500 (Message msg)), s)"
    using assms by (simp add: app_def get_courses_def)
qed

theorem get_courses_all_newest_first_witness:
  "\<exists>rows. app example_env no_fault \<lparr>authorization = None, req_route = GetCourses\<rparr> example_store
            = (Responded (json_response 200 (CourseList rows)), example_store) \<and>
          map c_id rows = [6, 5] \<and> map c_created_at rows = [200, 100]"
proof -
  have r: "req_route \<lparr>authorization = None, req_route = GetCourses\<rparr> = GetCourses"
    by simp
  from get_courses_all_newest_first
         [where flt = no_fault and ev = example_env and s = example_store, OF r]
  obtain rows where
    run: "app example_env no_fault \<lparr>authorization = None, req_route = GetCourses\<rparr> example_store
            = (Responded (json_response 200 (CourseList rows)), example_store)"
    by (auto simp: no_fault_def)
  then have "rows = order_created_at_desc (courses example_store)"
    by (simp add: app_def get_courses_def no_fault_def json_response_def)
  then have "map c_id rows = [6, 5] \<and> map c_created_at rows = [200, 100]"
    by (simp add: order_created_at_desc_def example_store_def)
  with run show ?thesis
    by (intro exI [of _ rows]) simp
qed

subsection \<open>C9: updating the status of an enrollment\<close>

text \<open>
  C9. For every PUT /api/enrollments/:id request of an administrator, whatever string
  the status is, the response is HTTP 200 with the message "Status updated", also when
  the update of the store fails: without a fault every enrollment with that id takes the
  given status unvalidated, and with a fault the store is left as it was and the answer
  is the same.
\<close>

theorem put_enrollment_always_updated:
  assumes "req_route req = PutEnrollment eid st"
    and "requireAuth ev req = Inr u"
    and "requireAdmin ev u = None"
  shows "fst (app ev flt req s) = Responded (json_response 200 (Message ''Status updated'')) \<and>
         (flt 0 = None \<longrightarrow>
            snd (app ev flt req s) =
              s\<lparr>enrollments :=
                   map (\<lambda>e. if e_id e = eid then e\<lparr>e_status := st\<rparr> else e) (enrollments s)\<rparr>) \<and>
         (flt 0 \<noteq> None \<longrightarrow> snd (app ev flt req s) = s)"
proof -
  have "app ev flt req s = put_enrollment (flt 0) eid st s"
    using assms by (rule app_put_enrollment)
  then show ?thesis
    by (auto simp: put_enrollment_def)
qed

theorem put_enrollment_always_updated_witness:
  "fst (app example_env (\<lambda>k. Some ''connection refused'')
          (example_request ''tok-admin'' (PutEnrollment 2 ''anything at all'')) example_store)
     = Responded (json_response 200 (Message ''Status updated'')) \<and>
   snd (app example_env (\<lambda>k. Some ''connection refused'')
          (example_request ''tok-admin'' (PutEnrollment 2 ''anything at all'')) example_store)
     = example_store \<and>
   map e_status (enrollments (snd (app example_env no_fault
          (example_request ''tok-admin'' (PutEnrollment 2 ''anything at all'')) example_store)))
     = [''lulus'', ''anything at all'']"
proof -
  have r: "req_route (example_request ''tok-admin'' (PutEnrollment 2 ''anything at all''))
             = PutEnrollment 2 ''anything at all''"
    by (simp add: example_request_def)
  note a = put_enrollment_always_updated [OF r ex_auth_admin ex_admin_passes,
      of "\<lambda>k. Some ''connection refused''" example_store]
  note b = put_enrollment_always_updated [OF r ex_auth_admin ex_admin_passes,
      of no_fault example_store]
  from a b show ?thesis
    by (simp add: no_fault_def example_store_def)
qed

subsection \<open>C10: a failed lookup on the certificate route\<close>



end
